theory Spec2Isabelle
  imports Complex_Main "HOL-Library.Char_ord" "HOL-Library.List_Lexorder"
begin

section \<open>Data model\<close>

text \<open>
  The two Node scripts of the repository, \<^verbatim>\<open>scripts/weekly-update.js\<close> and
  \<^verbatim>\<open>scripts/monthly-archive.js\<close>, work on JSON documents. A JavaScript number is
  modelled as a \<^typ>\<open>real\<close> (exact arithmetic), a string as a \<^typ>\<open>string\<close> of code
  units, an object whose keys are data as an association list in property order, a value
  that may be \<^verbatim>\<open>undefined\<close> or \<^verbatim>\<open>null\<close> as an \<^typ>\<open>'a option\<close>. A persisted file
  is identified with the value that \<^verbatim>\<open>JSON.parse\<close> reads from it. An uncaught exception
  is the left summand of a sum type.
\<close>

datatype RiskLevel = Low | Moderate | Elevated | High | Severe

text \<open>
  The \<^verbatim>\<open>trend\<close> property holds a string; the lookup \<^verbatim>\<open>trendMap[...]\<close> of the update
  script can also reach the two lower-case properties every object literal inherits.
\<close>

datatype trend_value = TrendStr string | ObjectConstructor | ObjectPrototype

datatype error = TypeError

record CategoryScore =
  score :: real
  trend :: trend_value
  keyFindings :: "string list"
  sources :: "string list option"
  lastUpdated :: string

record CurrentAssessment =
  assessmentDate :: string
  assessmentPeriod :: string
  scores :: "(string \<times> CategoryScore) list"
  domainScores :: "(string \<times> real) list"
  overallScore :: real
  riskLevel :: RiskLevel

section \<open>Score model (weekly-update.js)\<close>

definition CATEGORIES :: "string list" where
  "CATEGORIES =
    [''elections'', ''rule-of-law'', ''national-security'', ''regulatory-stability'',
     ''trade-policy'', ''government-contracts'', ''fiscal-policy'', ''media-freedom'',
     ''civil-discourse'', ''institutional-integrity'']"

definition DOMAINS :: "(string \<times> string list) list" where
  "DOMAINS =
    [(''rule-of-law'', [''elections'', ''rule-of-law'', ''national-security'']),
     (''operating-economic'',
        [''regulatory-stability'', ''trade-policy'', ''government-contracts'', ''fiscal-policy'']),
     (''societal-institutional'',
        [''media-freedom'', ''civil-discourse'', ''institutional-integrity''])]"

text \<open>\<^verbatim>\<open>Math.round\<close>: the nearest integer, a tie going up.\<close>

definition Math_round :: "real \<Rightarrow> real" where
  "Math_round x = of_int \<lfloor>x + 1 / 2\<rfloor>"

text \<open>
  \<^verbatim>\<open>categories.reduce((acc, cat) => acc + scores[cat].score, 0)\<close>: reading \<^verbatim>\<open>.score\<close> of
  a category that the object lacks throws.
\<close>

fun reduceScores :: "(string \<times> CategoryScore) list \<Rightarrow> string list \<Rightarrow> real \<Rightarrow> error + real" where
  "reduceScores scs [] acc = Inr acc"
| "reduceScores scs (cat # cats) acc =
     (case map_of scs cat of
        None \<Rightarrow> Inl TypeError
      | Some c \<Rightarrow> reduceScores scs cats (acc + score c))"

text \<open>\<^verbatim>\<open>domainScores[domain] = v\<close> on an object: replace the property or append it.\<close>

fun setProperty :: "string \<Rightarrow> 'v \<Rightarrow> (string \<times> 'v) list \<Rightarrow> (string \<times> 'v) list" where
  "setProperty k v [] = [(k, v)]"
| "setProperty k v (p # ps) = (if fst p = k then (k, v) # ps else p # setProperty k v ps)"

fun domainLoop ::
  "(string \<times> CategoryScore) list \<Rightarrow> (string \<times> string list) list \<Rightarrow> (string \<times> real) list
     \<Rightarrow> error + (string \<times> real) list" where
  "domainLoop scs [] ds = Inr ds"
| "domainLoop scs ((domain, categories) # rest) ds =
     (case reduceScores scs categories 0 of
        Inl e \<Rightarrow> Inl e
      | Inr sumv \<Rightarrow>
          domainLoop scs rest
            (setProperty domain (Math_round ((sumv / real (length categories)) * 100) / 100) ds))"

definition calculateDomainScores :: "(string \<times> CategoryScore) list \<Rightarrow> error + (string \<times> real) list" where
  "calculateDomainScores scs = domainLoop scs DOMAINS []"

definition calculateOverallScore :: "(string \<times> CategoryScore) list \<Rightarrow> error + real" where
  "calculateOverallScore scs =
     (case reduceScores scs CATEGORIES 0 of
        Inl e \<Rightarrow> Inl e
      | Inr sumv \<Rightarrow> Inr (Math_round ((sumv / real (length CATEGORIES)) * 10) / 10))"

definition getRiskLevel :: "real \<Rightarrow> RiskLevel" where
  "getRiskLevel s =
     (if s < 3 then Low
      else if s < 5 then Moderate
      else if s < 7 then Elevated
      else if s < 9 then High
      else Severe)"

subsection \<open>The specification's wording of the score model\<close>

text \<open>
  A valid scores mapping has all ten category ids, each with an integer score from 1 to 10.
\<close>

definition is_integer :: "real \<Rightarrow> bool" where
  "is_integer x = (of_int \<lfloor>x\<rfloor> = x)"

definition valid_score :: "real \<Rightarrow> bool" where
  "valid_score x = (is_integer x \<and> 1 \<le> x \<and> x \<le> 10)"

definition valid_scores :: "(string \<times> CategoryScore) list \<Rightarrow> bool" where
  "valid_scores scs =
     list_all (\<lambda>cat. case map_of scs cat of None \<Rightarrow> False | Some c \<Rightarrow> valid_score (score c))
       CATEGORIES"

text \<open>The score the mapping holds for a category (0 stands for a category it lacks).\<close>

definition score_of :: "(string \<times> CategoryScore) list \<Rightarrow> string \<Rightarrow> real" where
  "score_of scs cat = (case map_of scs cat of None \<Rightarrow> 0 | Some c \<Rightarrow> score c)"

definition spec_mean :: "real list \<Rightarrow> real" where
  "spec_mean xs = sum_list xs / real (length xs)"

text \<open>Rounding to \<open>d\<close> decimal places: the nearest multiple of \<open>10\<^sup>-\<^sup>d\<close>.\<close>

definition spec_round_to :: "nat \<Rightarrow> real \<Rightarrow> real" where
  "spec_round_to d x = of_int (round (x * 10 ^ d)) / 10 ^ d"

section \<open>Strings and operator input (weekly-update.js)\<close>

text \<open>
  A \<^typ>\<open>char\<close> is a code unit below 256. The white space of \<^verbatim>\<open>parseInt\<close> and
  \<^verbatim>\<open>trim\<close> in that range: tab, line feed, vertical tab, form feed, carriage return,
  space and no-break space.
\<close>

definition isWhiteSpace :: "char \<Rightarrow> bool" where
  "isWhiteSpace c =
     (c = CHR 0x09 \<or> c = CHR 0x0A \<or> c = CHR 0x0B \<or> c = CHR 0x0C \<or> c = CHR 0x0D
      \<or> c = CHR 0x20 \<or> c = CHR 0xA0)"

definition trim :: "string \<Rightarrow> string" where
  "trim s = rev (dropWhile isWhiteSpace (rev (dropWhile isWhiteSpace s)))"

definition lowerChar :: "char \<Rightarrow> char" where
  "lowerChar c =
     (let n = (of_char c :: nat)
      in if (65 \<le> n \<and> n \<le> 90) \<or> (192 \<le> n \<and> n \<le> 222 \<and> n \<noteq> 215)
         then char_of (n + 32) else c)"

definition toLowerCase :: "string \<Rightarrow> string" where
  "toLowerCase s = map lowerChar s"

text \<open>The value of a character as a digit of some radix up to 36, if it is one.\<close>

definition digitValue :: "char \<Rightarrow> int option" where
  "digitValue c =
     (let n = (of_char c :: nat)
      in if 48 \<le> n \<and> n \<le> 57 then Some (int n - 48)
         else if 97 \<le> n \<and> n \<le> 122 then Some (int n - 87)
         else if 65 \<le> n \<and> n \<le> 90 then Some (int n - 55)
         else None)"

definition isRadixDigit :: "int \<Rightarrow> char \<Rightarrow> bool" where
  "isRadixDigit R c = (case digitValue c of None \<Rightarrow> False | Some v \<Rightarrow> v < R)"

fun stripSign :: "string \<Rightarrow> int \<times> string" where
  "stripSign [] = (1, [])"
| "stripSign (c # cs) =
     (if c = CHR ''-'' then (- 1, cs) else if c = CHR ''+'' then (1, cs) else (1, c # cs))"

fun stripPrefix :: "string \<Rightarrow> int \<times> string" where
  "stripPrefix (c0 # c1 # cs) =
     (if c0 = CHR ''0'' \<and> (c1 = CHR ''x'' \<or> c1 = CHR ''X'') then (16, cs)
      else (10, c0 # c1 # cs))"
| "stripPrefix cs = (10, cs)"

definition digitsValue :: "int \<Rightarrow> string \<Rightarrow> int" where
  "digitsValue R Z = foldl (\<lambda>acc c. acc * R + (case digitValue c of None \<Rightarrow> 0 | Some v \<Rightarrow> v)) 0 Z"

text \<open>
  \<^verbatim>\<open>parseInt(string)\<close> with no radix: skip leading white space, take a sign, take a
  \<^verbatim>\<open>0x\<close> prefix as radix 16, read the longest run of digits of the radix and ignore what
  follows; \<^verbatim>\<open>NaN\<close> (here \<^const>\<open>None\<close>) when that run is empty.
\<close>

definition parseInt :: "string \<Rightarrow> int option" where
  "parseInt inputString =
     (let (sign, S) = stripSign (dropWhile isWhiteSpace inputString);
          (R, S') = stripPrefix S;
          Z = takeWhile (isRadixDigit R) S'
      in if Z = [] then None else Some (sign * digitsValue R Z))"

text \<open>
  The operator's answers are a list that \<^verbatim>\<open>question\<close> consumes from the front. When the
  list is exhausted the pending promise never resolves: the script stops there without
  running any later statement.
\<close>

datatype stop = Throws error | AwaitsInput

definition bindE :: "'e + 'a \<Rightarrow> ('a \<Rightarrow> 'e + 'b) \<Rightarrow> 'e + 'b" where
  "bindE m f = (case m of Inl e \<Rightarrow> Inl e | Inr a \<Rightarrow> f a)"

definition question :: "string list \<Rightarrow> stop + (string \<times> string list)" where
  "question rl = (case rl of [] \<Rightarrow> Inl AwaitsInput | answer # rl' \<Rightarrow> Inr (answer, rl'))"

text \<open>\<^verbatim>\<open>selected.add(cat)\<close> on a \<^verbatim>\<open>Set\<close>, which keeps insertion order.\<close>

definition setAdd :: "'a \<Rightarrow> 'a list \<Rightarrow> 'a list" where
  "setAdd x selected = (if x \<in> set selected then selected else selected @ [x])"

fun selectLoop :: "string list \<Rightarrow> string list \<Rightarrow> stop + (string list \<times> string list)" where
  "selectLoop [] selected = Inl AwaitsInput"
| "selectLoop (input # rl) selected =
     (if toLowerCase input = ''q'' then Inr (selected, rl)
      else case parseInt input of
             None \<Rightarrow> selectLoop rl selected
           | Some num \<Rightarrow>
               if num = 0 then Inr (foldl (\<lambda>sel cat. setAdd cat sel) selected CATEGORIES, rl)
               else if 1 \<le> num \<and> num \<le> int (length CATEGORIES)
                    then selectLoop rl (setAdd (CATEGORIES ! nat (num - 1)) selected)
                    else selectLoop rl selected)"

definition selectCategories :: "string list \<Rightarrow> stop + (string list \<times> string list)" where
  "selectCategories rl = selectLoop rl []"

subsection \<open>Editing one category\<close>

definition updateScore :: "string list \<Rightarrow> CategoryScore \<Rightarrow> stop + (CategoryScore \<times> string list)" where
  "updateScore rl cat =
     bindE (question rl) (\<lambda>(newScore, rl').
       if newScore \<noteq> [] \<and> parseInt newScore \<noteq> None
       then Inr (cat\<lparr>score := max 1 (min 10 (real_of_int (the (parseInt newScore))))\<rparr>, rl')
       else Inr (cat, rl'))"

text \<open>The score of the category after the answer \<open>r\<close> to the score prompt.\<close>

abbreviation (input) storedScore :: "string \<Rightarrow> real \<Rightarrow> real" where
  "storedScore r old \<equiv> (case parseInt r of None \<Rightarrow> old | Some n \<Rightarrow> max 1 (min 10 (real_of_int n)))"

text \<open>
  \<^verbatim>\<open>trendMap[k]\<close> on the object literal: its three own keys, and the inherited
  properties whose names are lower case.
\<close>

definition trendMap :: "string \<Rightarrow> trend_value option" where
  "trendMap k =
     (if k = ''i'' then Some (TrendStr ''increasing'')
      else if k = ''s'' then Some (TrendStr ''stable'')
      else if k = ''d'' then Some (TrendStr ''decreasing'')
      else if k = ''constructor'' then Some ObjectConstructor
      else if k = ''__proto__'' then Some ObjectPrototype
      else None)"

definition updateTrend :: "string list \<Rightarrow> CategoryScore \<Rightarrow> stop + (CategoryScore \<times> string list)" where
  "updateTrend rl cat =
     bindE (question rl) (\<lambda>(trendInput, rl').
       if trendInput \<noteq> []
       then (case (case trendMap (toLowerCase trendInput) of
                     Some t \<Rightarrow> Some t
                   | None \<Rightarrow> trendMap (take 1 (toLowerCase trendInput))) of
               Some t \<Rightarrow> Inr (cat\<lparr>trend := t\<rparr>, rl')
             | None \<Rightarrow> Inr (cat, rl'))
       else Inr (cat, rl'))"

fun readLines :: "string list \<Rightarrow> string list \<Rightarrow> stop + (string list \<times> string list)" where
  "readLines [] acc = Inl AwaitsInput"
| "readLines (line # rl) acc =
     (if trim line = [] then Inr (acc, rl) else readLines rl (acc @ [trim line]))"

definition updateFindings :: "string list \<Rightarrow> CategoryScore \<Rightarrow> stop + (CategoryScore \<times> string list)" where
  "updateFindings rl cat =
     bindE (question rl) (\<lambda>(answer, rl').
       if toLowerCase answer = ''y''
       then bindE (readLines rl' []) (\<lambda>(newFindings, rl'').
              if length newFindings > 0 then Inr (cat\<lparr>keyFindings := newFindings\<rparr>, rl'')
              else Inr (cat, rl''))
       else Inr (cat, rl'))"

text \<open>\<^verbatim>\<open>cat.sources.forEach\<close> throws when the optional \<^verbatim>\<open>sources\<close> is absent.\<close>

definition updateSources :: "string list \<Rightarrow> CategoryScore \<Rightarrow> stop + (CategoryScore \<times> string list)" where
  "updateSources rl cat =
     (case sources cat of
        None \<Rightarrow> Inl (Throws TypeError)
      | Some _ \<Rightarrow>
          bindE (question rl) (\<lambda>(answer, rl').
            if toLowerCase answer = ''y''
            then bindE (readLines rl' []) (\<lambda>(newSources, rl'').
                   if length newSources > 0 then Inr (cat\<lparr>sources := Some newSources\<rparr>, rl'')
                   else Inr (cat, rl''))
            else Inr (cat, rl')))"

text \<open>
  \<^verbatim>\<open>updateCategory(rl, current, categoryId)\<close> mutates the object
  \<^verbatim>\<open>current.scores[categoryId]\<close> in place; the model returns the assessment with that
  entry replaced. \<open>today\<close> is what \<^verbatim>\<open>getDateString()\<close> reads from the clock.
\<close>

definition updateCategory ::
  "string list \<Rightarrow> CurrentAssessment \<Rightarrow> string \<Rightarrow> string \<Rightarrow> stop + (CurrentAssessment \<times> string list)" where
  "updateCategory rl current categoryId today =
     (case map_of (scores current) categoryId of
        None \<Rightarrow> Inl (Throws TypeError)
      | Some cat \<Rightarrow>
          bindE (updateScore rl cat) (\<lambda>(cat1, rl1).
          bindE (updateTrend rl1 cat1) (\<lambda>(cat2, rl2).
          bindE (updateFindings rl2 cat2) (\<lambda>(cat3, rl3).
          bindE (updateSources rl3 cat3) (\<lambda>(cat4, rl4).
            Inr (current\<lparr>scores :=
                   setProperty categoryId (cat4\<lparr>lastUpdated := today\<rparr>) (scores current)\<rparr>,
                 rl4))))))"

subsection \<open>The update session\<close>

fun updateLoop ::
  "string list \<Rightarrow> CurrentAssessment \<Rightarrow> string list \<Rightarrow> string \<Rightarrow> stop + (CurrentAssessment \<times> string list)" where
  "updateLoop rl current [] today = Inr (current, rl)"
| "updateLoop rl current (categoryId # rest) today =
     bindE (updateCategory rl current categoryId today) (\<lambda>(current', rl').
       updateLoop rl' current' rest today)"

definition recalculate :: "CurrentAssessment \<Rightarrow> string \<Rightarrow> stop + CurrentAssessment" where
  "recalculate current today =
     (case calculateDomainScores (scores current) of
        Inl e \<Rightarrow> Inl (Throws e)
      | Inr ds \<Rightarrow>
          (case calculateOverallScore (scores current) of
             Inl e \<Rightarrow> Inl (Throws e)
           | Inr ov \<Rightarrow>
               Inr (current\<lparr>domainScores := ds, overallScore := ov,
                            riskLevel := getRiskLevel ov, assessmentDate := today\<rparr>)))"

datatype outcome = Saved | Discarded | NoCategoriesSelected | Stopped stop

text \<open>
  \<^verbatim>\<open>main\<close> of the update script, on the contents \<open>store\<close> of \<^verbatim>\<open>data/current.json\<close>:
  how the session ends, and the contents of the file afterwards.
\<close>

definition weekly_main :: "CurrentAssessment \<Rightarrow> string list \<Rightarrow> string \<Rightarrow> outcome \<times> CurrentAssessment" where
  "weekly_main store rl today =
     (case selectCategories rl of
        Inl s \<Rightarrow> (Stopped s, store)
      | Inr (selectedCategories, rl1) \<Rightarrow>
          if length selectedCategories = 0 then (NoCategoriesSelected, store)
          else (case updateLoop rl1 store selectedCategories today of
                  Inl s \<Rightarrow> (Stopped s, store)
                | Inr (current, rl2) \<Rightarrow>
                    (case recalculate current today of
                       Inl s \<Rightarrow> (Stopped s, store)
                     | Inr current' \<Rightarrow>
                         (case question rl2 of
                            Inl s \<Rightarrow> (Stopped s, store)
                          | Inr (confirm, rl3) \<Rightarrow>
                              if toLowerCase confirm \<noteq> ''n'' then (Saved, current')
                              else (Discarded, store)))))"

section \<open>Monthly archive (monthly-archive.js)\<close>

record HistoricalSnapshot =
  date :: string
  snapshotScores :: "(string \<times> real) list"
  snapshotDomainScores :: "(string \<times> real) list"
  snapshotOverallScore :: real
  snapshotRiskLevel :: RiskLevel

text \<open>
  An entry of \<^verbatim>\<open>categoryChanges\<close>. \<open>fromScore\<close> is the property \<^verbatim>\<open>from\<close>, undefined
  when the snapshot has no score for the category; the rationale is the placeholder
  \<^verbatim>\<open>UPDATE: Explain why ${categoryId} changed from ${oldScore} to ${newScore}\<close>, kept as
  its three interpolated values.
\<close>

datatype rationale_text = ExplainWhy string "real option" real

record CategoryChange =
  category :: string
  fromScore :: "real option"
  toScore :: real
  rationale :: rationale_text

text \<open>
  A record of \<^verbatim>\<open>data/historical-changes.json\<close>; the history page reads
  \<^verbatim>\<open>overallChange\<close> as a number or \<^verbatim>\<open>null\<close>.
\<close>

record ChangeRecord =
  period :: string
  changeDate :: string
  changeOverallScore :: real
  overallChange :: "real option"
  summary :: string
  keyDevelopments :: "string list"
  categoryChanges :: "CategoryChange list"

text \<open>
  The files the archive script works on: \<^verbatim>\<open>data/current.json\<close>, the snapshot files of
  \<^verbatim>\<open>data/history\<close> by file name, the text of \<^verbatim>\<open>app/history/page.tsx\<close>, and the
  \<^verbatim>\<open>changes\<close> array of \<^verbatim>\<open>data/historical-changes.json\<close>. The four are taken
  to exist and to parse, and the history directory to hold snapshot files only, in any
  order, one per name.
\<close>

record files =
  current_json :: CurrentAssessment
  history_dir :: "(string \<times> HistoricalSnapshot) list"
  history_page :: string
  changes_json :: "ChangeRecord list"

fun snapshotLoop :: "(string \<times> CategoryScore) list \<Rightarrow> (string \<times> real) list \<Rightarrow> (string \<times> real) list" where
  "snapshotLoop [] acc = acc"
| "snapshotLoop ((categoryId, categoryData) # rest) acc =
     snapshotLoop rest (setProperty categoryId (score categoryData) acc)"

definition createHistorySnapshot :: "CurrentAssessment \<Rightarrow> string \<Rightarrow> HistoricalSnapshot" where
  "createHistorySnapshot current dateStr =
     \<lparr>date = dateStr,
      snapshotScores = snapshotLoop (scores current) [],
      snapshotDomainScores = domainScores current,
      snapshotOverallScore = overallScore current,
      snapshotRiskLevel = riskLevel current\<rparr>"

definition snapshotPath :: "string \<Rightarrow> string" where
  "snapshotPath dateStr = dateStr @ ''.json''"

subsection \<open>The history page\<close>

fun splitOn :: "char \<Rightarrow> string \<Rightarrow> string \<Rightarrow> string list" where
  "splitOn sep [] cur = [cur]"
| "splitOn sep (c # cs) cur = (if c = sep then cur # splitOn sep cs [] else splitOn sep cs (cur @ [c]))"

text \<open>\<^verbatim>\<open>const [year, month] = dateStr.split('-')\<close>; a missing part prints as \<^verbatim>\<open>undefined\<close>.\<close>

definition getImportName :: "string \<Rightarrow> string" where
  "getImportName dateStr =
     (case splitOn (CHR ''-'') dateStr [] of
        year # month # _ \<Rightarrow> ''history'' @ year @ month
      | [year] \<Rightarrow> ''history'' @ year @ ''undefined''
      | [] \<Rightarrow> ''historyundefinedundefined'')"

fun includesStr :: "string \<Rightarrow> string \<Rightarrow> bool" where
  "includesStr [] sub = (sub = [])"
| "includesStr (c # cs) sub = (take (length sub) (c # cs) = sub \<or> includesStr cs sub)"

text \<open>
  \<^verbatim>\<open>updateHistoryPage\<close> edits the text of the page only; the two regular-expression
  insertions are the parameter \<open>insertImport\<close>.
\<close>

definition updateHistoryPage :: "(string \<Rightarrow> string \<Rightarrow> string) \<Rightarrow> string \<Rightarrow> string \<Rightarrow> string \<times> bool" where
  "updateHistoryPage insertImport dateStr content =
     (if includesStr content (getImportName dateStr) then (content, False)
      else (insertImport dateStr content, True))"

subsection \<open>The change-log template\<close>

definition getPreviousMonthData :: "ChangeRecord list \<Rightarrow> ChangeRecord option" where
  "getPreviousMonthData changes =
     (if length changes > 0 then Some (changes ! (length changes - 1)) else None)"

fun detectChanges :: "HistoricalSnapshot \<Rightarrow> (string \<times> CategoryScore) list \<Rightarrow> CategoryChange list" where
  "detectChanges lastSnapshot [] = []"
| "detectChanges lastSnapshot ((categoryId, categoryData) # rest) =
     (let oldScore = map_of (snapshotScores lastSnapshot) categoryId;
          newScore = score categoryData
      in if oldScore \<noteq> Some newScore
         then \<lparr>category = categoryId, fromScore = oldScore, toScore = newScore,
               rationale = ExplainWhy categoryId oldScore newScore\<rparr>
              # detectChanges lastSnapshot rest
         else detectChanges lastSnapshot rest)"

text \<open>
  \<^verbatim>\<open>generateChangesTemplate\<close> reads the change log and the history directory.
  \<^verbatim>\<open>fs.readdirSync(HISTORY_DIR).sort()\<close> orders the file names by code units; with no file
  at all \<^verbatim>\<open>path.join\<close> throws on the undefined name.
\<close>

definition readLastSnapshot :: "files \<Rightarrow> error + HistoricalSnapshot" where
  "readLastSnapshot fs =
     (let historyFiles = sort (map fst (history_dir fs))
      in if historyFiles = [] then Inl TypeError
         else (case map_of (history_dir fs) (historyFiles ! (length historyFiles - 1)) of
                 None \<Rightarrow> Inl TypeError
               | Some lastSnapshot \<Rightarrow> Inr lastSnapshot))"

definition generateChangesTemplate ::
  "files \<Rightarrow> CurrentAssessment \<Rightarrow> string \<Rightarrow> string \<Rightarrow> error + ChangeRecord" where
  "generateChangesTemplate fs current dateStr monthYear =
     (let prevMonth = getPreviousMonthData (changes_json fs);
          prevScore = (case prevMonth of
                         Some p \<Rightarrow> changeOverallScore p
                       | None \<Rightarrow> overallScore current);
          template =
            \<lparr>period = monthYear, changeDate = dateStr,
             changeOverallScore = overallScore current,
             overallChange = Some (Math_round ((overallScore current - prevScore) * 10) / 10),
             summary = ''UPDATE: Brief summary of the month's key developments'',
             keyDevelopments =
               [''UPDATE: Key development 1'', ''UPDATE: Key development 2'',
                ''UPDATE: Key development 3''],
             categoryChanges = []\<rparr>
      in case prevMonth of
           None \<Rightarrow> Inr template
         | Some _ \<Rightarrow>
             (case readLastSnapshot fs of
                Inl e \<Rightarrow> Inl e
              | Inr lastSnapshot \<Rightarrow>
                  Inr (template\<lparr>categoryChanges :=
                         detectChanges lastSnapshot (scores current)\<rparr>)))"

subsection \<open>The archive run\<close>

datatype report = SKIP | OK

text \<open>Step 1 of \<^verbatim>\<open>main\<close>: write the snapshot of the period unless its file exists.\<close>

definition archiveStep :: "files \<Rightarrow> string \<Rightarrow> report \<times> files" where
  "archiveStep fs dateStr =
     (if snapshotPath dateStr \<in> set (map fst (history_dir fs)) then (SKIP, fs)
      else (OK, fs\<lparr>history_dir :=
                  setProperty (snapshotPath dateStr)
                    (createHistorySnapshot (current_json fs) dateStr) (history_dir fs)\<rparr>))"

record run =
  archived :: report
  pageUpdated :: bool
  template :: "error + ChangeRecord"
  filesAfter :: files

text \<open>
  \<^verbatim>\<open>main\<close> of the archive script; \<open>dateStr\<close> and \<open>monthYear\<close> are what
  \<^verbatim>\<open>getDateString()\<close> and \<^verbatim>\<open>getMonthYear()\<close> read from the clock.
\<close>

definition archive_main :: "(string \<Rightarrow> string \<Rightarrow> string) \<Rightarrow> files \<Rightarrow> string \<Rightarrow> string \<Rightarrow> run" where
  "archive_main insertImport fs dateStr monthYear =
     (let current = current_json fs;
          (rep, fs1) = archiveStep fs dateStr;
          (content, updated) = updateHistoryPage insertImport dateStr (history_page fs1);
          fs2 = fs1\<lparr>history_page := content\<rparr>
      in \<lparr>archived = rep, pageUpdated = updated,
          template = generateChangesTemplate fs2 current dateStr monthYear,
          filesAfter = fs2\<rparr>)"

section \<open>Sample data\<close>

definition sample_category :: "real \<Rightarrow> CategoryScore" where
  "sample_category s =
     \<lparr>score = s, trend = TrendStr ''stable'', keyFindings = [''Court rulings pending''],
      sources = Some [''https://example.org/report''], lastUpdated = ''2026-01-15''\<rparr>"

definition sample_scores :: "real \<Rightarrow> (string \<times> CategoryScore) list" where
  "sample_scores e =
     [(''elections'', sample_category e), (''rule-of-law'', sample_category 8),
      (''national-security'', sample_category 7), (''regulatory-stability'', sample_category 6),
      (''trade-policy'', sample_category 8), (''government-contracts'', sample_category 5),
      (''fiscal-policy'', sample_category 6), (''media-freedom'', sample_category 7),
      (''civil-discourse'', sample_category 7), (''institutional-integrity'', sample_category 8)]"

text \<open>The assessment of January 2026 has elections at 5, the one of February at 7.\<close>

definition current_jan :: CurrentAssessment where
  "current_jan =
     \<lparr>assessmentDate = ''2026-01-15'', assessmentPeriod = ''January 2026'',
      scores = sample_scores 5,
      domainScores = [(''rule-of-law'', 667 / 100), (''operating-economic'', 625 / 100),
                      (''societal-institutional'', 733 / 100)],
      overallScore = 67 / 10, riskLevel = Elevated\<rparr>"

definition current_feb :: CurrentAssessment where
  "current_feb =
     \<lparr>assessmentDate = ''2026-02-18'', assessmentPeriod = ''February 2026'',
      scores = sample_scores 7,
      domainScores = [(''rule-of-law'', 733 / 100), (''operating-economic'', 625 / 100),
                      (''societal-institutional'', 733 / 100)],
      overallScore = 69 / 10, riskLevel = Elevated\<rparr>"

definition snapshot_dec :: HistoricalSnapshot where
  "snapshot_dec =
     (createHistorySnapshot current_jan ''2025-12-20'')\<lparr>snapshotOverallScore := 65 / 10\<rparr>"

definition snapshot_jan :: HistoricalSnapshot where
  "snapshot_jan = createHistorySnapshot current_jan ''2026-01-20''"

definition sample_record :: "string \<Rightarrow> string \<Rightarrow> real \<Rightarrow> ChangeRecord" where
  "sample_record p d s =
     \<lparr>period = p, changeDate = d, changeOverallScore = s, overallChange = None,
      summary = ''Scores held steady'', keyDevelopments = [], categoryChanges = []\<rparr>"

text \<open>The page text left as it is: neither regular expression of the page update matches.\<close>

definition keepPage :: "string \<Rightarrow> string \<Rightarrow> string" where
  "keepPage dateStr content = content"

text \<open>Before the first archive: no snapshot, an empty change log.\<close>

definition files_first :: files where
  "files_first =
     \<lparr>current_json = current_jan, history_dir = [], history_page = [], changes_json = []\<rparr>"

text \<open>February: January is archived and has its change record.\<close>

definition files_feb :: files where
  "files_feb =
     \<lparr>current_json = current_feb,
      history_dir = [(''2026-01-20.json'', snapshot_jan)],
      history_page = [],
      changes_json = [sample_record ''January 2026'' ''2026-01-20'' (67 / 10)]\<rparr>"

text \<open>
  February, with December and January archived and the change log holding the record of
  December only.
\<close>

definition files_lag :: files where
  "files_lag =
     \<lparr>current_json = current_feb,
      history_dir = [(''2025-12-20.json'', snapshot_dec), (''2026-01-20.json'', snapshot_jan)],
      history_page = [],
      changes_json = [sample_record ''December 2025'' ''2025-12-20'' (65 / 10)]\<rparr>"

section \<open>Properties of the score model\<close>

lemma Math_round_round: "Math_round x = of_int (round x)"
  by (simp add: Math_round_def round_def)

lemma reduceScores_present:
  "list_all (\<lambda>cat. map_of scs cat \<noteq> None) cats \<Longrightarrow>
   reduceScores scs cats acc = Inr (acc + sum_list (map (score_of scs) cats))"
  by (induction cats arbitrary: acc) (auto simp: score_of_def)

lemma valid_scores_present:
  "valid_scores scs \<Longrightarrow> cat \<in> set CATEGORIES \<Longrightarrow> map_of scs cat \<noteq> None"
  by (auto simp: valid_scores_def list_all_iff split: option.splits)

lemma valid_scores_range:
  "valid_scores scs \<Longrightarrow> cat \<in> set CATEGORIES \<Longrightarrow>
   1 \<le> score_of scs cat \<and> score_of scs cat \<le> 10"
  by (auto simp: valid_scores_def list_all_iff score_of_def valid_score_def split: option.splits)

lemma sum_list_bounds:
  "\<forall>x \<in> set xs. (1::real) \<le> f x \<and> f x \<le> 10 \<Longrightarrow>
   real (length xs) \<le> sum_list (map f xs) \<and> sum_list (map f xs) \<le> 10 * real (length xs)"
  by (induction xs) auto

lemma spec_round_to_bounds:
  assumes "1 \<le> x" "x \<le> 10"
  shows "1 \<le> spec_round_to 1 x \<and> spec_round_to 1 x \<le> 10"
proof -
  have lo: "round (10::real) \<le> round (x * 10)" using assms by (intro round_mono) simp
  have hi: "round (x * 10) \<le> round (100::real)" using assms by (intro round_mono) simp
  from lo hi show ?thesis by (simp add: spec_round_to_def)
qed

lemma sample_scores_valid: "valid_scores (sample_scores 7)"
  by code_simp

text \<open>
  Claim C4. For every valid scores mapping (all ten category ids, each score an integer
  from 1 to 10), \<^verbatim>\<open>calculateOverallScore\<close> returns the arithmetic mean of the ten category
  scores rounded to one decimal place, and that value lies between 1 and 10.
\<close>

theorem calculateOverallScore_mean:
  assumes "valid_scores scs"
  shows "calculateOverallScore scs
           = Inr (spec_round_to 1 (spec_mean (map (score_of scs) CATEGORIES)))
       \<and> 1 \<le> spec_round_to 1 (spec_mean (map (score_of scs) CATEGORIES))
       \<and> spec_round_to 1 (spec_mean (map (score_of scs) CATEGORIES)) \<le> 10"
proof -
  let ?xs = "map (score_of scs) CATEGORIES"
  have pres: "list_all (\<lambda>cat. map_of scs cat \<noteq> None) CATEGORIES"
    using valid_scores_present[OF assms] by (simp add: list_all_iff)
  have red: "reduceScores scs CATEGORIES 0 = Inr (sum_list ?xs)"
    using reduceScores_present[OF pres, of 0] by simp
  have eq: "calculateOverallScore scs = Inr (spec_round_to 1 (spec_mean ?xs))"
    by (simp add: calculateOverallScore_def red spec_round_to_def spec_mean_def Math_round_round)
  have len: "length CATEGORIES = 10" by (simp add: CATEGORIES_def)
  have "real (length CATEGORIES) \<le> sum_list ?xs \<and> sum_list ?xs \<le> 10 * real (length CATEGORIES)"
    using valid_scores_range[OF assms] by (intro sum_list_bounds) blast
  then have "1 \<le> spec_mean ?xs \<and> spec_mean ?xs \<le> 10"
    by (simp add: spec_mean_def len)
  then have "1 \<le> spec_round_to 1 (spec_mean ?xs) \<and> spec_round_to 1 (spec_mean ?xs) \<le> 10"
    using spec_round_to_bounds by blast
  with eq show ?thesis by blast
qed

theorem calculateOverallScore_mean_witness:
  "valid_scores (sample_scores 7)
   \<and> calculateOverallScore (sample_scores 7) = Inr (69 / 10)
   \<and> spec_round_to 1 (spec_mean (map (score_of (sample_scores 7)) CATEGORIES)) = 69 / 10"
proof -
  have v: "spec_round_to 1 (spec_mean (map (score_of (sample_scores 7)) CATEGORIES)) = 69 / 10"
    by code_simp
  from calculateOverallScore_mean[OF sample_scores_valid] v sample_scores_valid
  show ?thesis by simp
qed

text \<open>
  Claim C5. For every valid scores mapping, \<^verbatim>\<open>calculateDomainScores\<close> returns, for each of
  the three domains of the hardcoded table, the arithmetic mean of the scores of that
  domain's categories rounded to two decimal places; the three category lists of the
  table, one after the other, are the ten category ids without repetition.
\<close>

theorem calculateDomainScores_mean:
  assumes "valid_scores scs"
  shows "calculateDomainScores scs =
           Inr (map (\<lambda>(domain, categories).
                  (domain, spec_round_to 2 (spec_mean (map (score_of scs) categories)))) DOMAINS)
       \<and> concat (map snd DOMAINS) = CATEGORIES \<and> distinct CATEGORIES"
proof -
  have pres: "\<And>cats. set cats \<subseteq> set CATEGORIES \<Longrightarrow> list_all (\<lambda>cat. map_of scs cat \<noteq> None) cats"
    using valid_scores_present[OF assms] by (auto simp: list_all_iff)
  have red: "\<And>cats. set cats \<subseteq> set CATEGORIES \<Longrightarrow>
      reduceScores scs cats 0 = Inr (sum_list (map (score_of scs) cats))"
    using reduceScores_present[OF pres, of _ 0] by simp
  have r1: "reduceScores scs [''elections'', ''rule-of-law'', ''national-security''] 0
     = Inr (sum_list (map (score_of scs) [''elections'', ''rule-of-law'', ''national-security'']))"
    by (rule red) (simp add: CATEGORIES_def)
  have r2: "reduceScores scs
       [''regulatory-stability'', ''trade-policy'', ''government-contracts'', ''fiscal-policy''] 0
     = Inr (sum_list (map (score_of scs)
       [''regulatory-stability'', ''trade-policy'', ''government-contracts'', ''fiscal-policy'']))"
    by (rule red) (simp add: CATEGORIES_def)
  have r3: "reduceScores scs [''media-freedom'', ''civil-discourse'', ''institutional-integrity''] 0
     = Inr (sum_list (map (score_of scs)
       [''media-freedom'', ''civil-discourse'', ''institutional-integrity'']))"
    by (rule red) (simp add: CATEGORIES_def)
  have main: "calculateDomainScores scs =
           Inr (map (\<lambda>(domain, categories).
                  (domain, spec_round_to 2 (spec_mean (map (score_of scs) categories)))) DOMAINS)"
    unfolding calculateDomainScores_def DOMAINS_def
    by (simp only: domainLoop.simps r1 r2 r3 sum.case)
       (simp add: spec_round_to_def spec_mean_def Math_round_round)
  have part: "concat (map snd DOMAINS) = CATEGORIES \<and> distinct CATEGORIES"
    by (simp add: DOMAINS_def CATEGORIES_def)
  from main part show ?thesis by blast
qed

theorem calculateDomainScores_mean_witness:
  "valid_scores (sample_scores 7)
   \<and> calculateDomainScores (sample_scores 7)
       = Inr [(''rule-of-law'', 733 / 100), (''operating-economic'', 625 / 100),
              (''societal-institutional'', 733 / 100)]"
proof -
  have v: "map (\<lambda>(domain, categories).
             (domain, spec_round_to 2 (spec_mean (map (score_of (sample_scores 7)) categories))))
             DOMAINS
           = [(''rule-of-law'', 733 / 100), (''operating-economic'', 625 / 100),
              (''societal-institutional'', 733 / 100)]"
    by code_simp
  from calculateDomainScores_mean[OF sample_scores_valid] v sample_scores_valid
  show ?thesis by simp
qed

text \<open>
  Claim C6. For every score from 1 to 10, \<^verbatim>\<open>getRiskLevel\<close> gives Low below 3, Moderate from
  3 to below 5, Elevated from 5 to below 7, High from 7 to below 9 and Severe from 9 to 10
  inclusive; 2.9 is Low, 3.0 Moderate, 8.9 High, 9.0 Severe and 10 Severe.
\<close>

theorem getRiskLevel_bins:
  assumes "1 \<le> s" "s \<le> 10"
  shows "(getRiskLevel s = Low \<longleftrightarrow> s < 3)
       \<and> (getRiskLevel s = Moderate \<longleftrightarrow> 3 \<le> s \<and> s < 5)
       \<and> (getRiskLevel s = Elevated \<longleftrightarrow> 5 \<le> s \<and> s < 7)
       \<and> (getRiskLevel s = High \<longleftrightarrow> 7 \<le> s \<and> s < 9)
       \<and> (getRiskLevel s = Severe \<longleftrightarrow> 9 \<le> s \<and> s \<le> 10)
       \<and> getRiskLevel (29 / 10) = Low \<and> getRiskLevel 3 = Moderate
       \<and> getRiskLevel (89 / 10) = High \<and> getRiskLevel 9 = Severe \<and> getRiskLevel 10 = Severe"
  using assms by (simp add: getRiskLevel_def)

theorem getRiskLevel_bins_witness:
  "(1::real) \<le> 89 / 10 \<and> (89 / 10 :: real) \<le> 10 \<and> getRiskLevel (89 / 10) = High"
  using getRiskLevel_bins[of "89 / 10"] by simp

section \<open>Properties of the archive run\<close>

lemma map_of_setProperty: "map_of (setProperty k v ps) = (map_of ps)(k \<mapsto> v)"
  by (induction ps) (auto simp: fun_eq_iff)

lemma keys_setProperty_new:
  "k \<notin> fst ` set ps \<Longrightarrow> setProperty k v ps = ps @ [(k, v)]"
  by (induction ps) auto

lemma keys_setProperty: "fst ` set (setProperty k v ps) = insert k (fst ` set ps)"
  by (induction ps) auto

lemma count_key_distinct:
  "distinct (map fst ps) \<Longrightarrow> k \<in> fst ` set ps \<Longrightarrow> length (filter (\<lambda>p. fst p = k) ps) = 1"
proof (induction ps)
  case Nil
  then show ?case by simp
next
  case (Cons p ps)
  show ?case
  proof (cases "fst p = k")
    case True
    with Cons.prems have "k \<notin> fst ` set ps" by auto
    then have "filter (\<lambda>p. fst p = k) ps = []" by (auto simp: filter_empty_conv)
    with True show ?thesis by simp
  next
    case False
    with Cons show ?thesis by auto
  qed
qed

lemma archiveStep_history:
  "history_dir (snd (archiveStep fs dateStr)) =
     (if snapshotPath dateStr \<in> fst ` set (history_dir fs) then history_dir fs
      else history_dir fs @ [(snapshotPath dateStr, createHistorySnapshot (current_json fs) dateStr)])"
  by (simp add: archiveStep_def keys_setProperty_new)

lemma archive_main_history:
  "history_dir (filesAfter (archive_main ins fs dateStr monthYear)) =
     history_dir (snd (archiveStep fs dateStr))"
  by (simp add: archive_main_def Let_def split: prod.splits)

lemma archive_main_archived:
  "archived (archive_main ins fs dateStr monthYear) = fst (archiveStep fs dateStr)"
  by (simp add: archive_main_def Let_def split: prod.splits)

lemma readLastSnapshot_total:
  "history_dir fs \<noteq> [] \<Longrightarrow> \<exists>s. readLastSnapshot fs = Inr s \<and> s \<in> snd ` set (history_dir fs)"
proof -
  assume ne: "history_dir fs \<noteq> []"
  let ?hf = "sort (map fst (history_dir fs))"
  have ne': "?hf \<noteq> []" using ne by (metis length_sort length_map length_0_conv)
  then have "?hf ! (length ?hf - 1) \<in> set ?hf" by (metis last_conv_nth last_in_set)
  then have "?hf ! (length ?hf - 1) \<in> fst ` set (history_dir fs)" by simp
  then obtain s where s: "map_of (history_dir fs) (?hf ! (length ?hf - 1)) = Some s"
    by (metis map_of_eq_None_iff not_None_eq)
  then have "s \<in> snd ` set (history_dir fs)" by (metis map_of_SomeD image_eqI snd_conv)
  with s ne' show ?thesis by (simp add: readLastSnapshot_def Let_def)
qed

lemma archive_main_template:
  "template (archive_main ins fs dateStr monthYear) =
     generateChangesTemplate
       ((snd (archiveStep fs dateStr))\<lparr>history_page :=
           fst (updateHistoryPage ins dateStr (history_page (snd (archiveStep fs dateStr))))\<rparr>)
       (current_json fs) dateStr monthYear"
  by (simp add: archive_main_def Let_def split: prod.splits)

lemma archiveStep_changes: "changes_json (snd (archiveStep fs dateStr)) = changes_json fs"
  by (simp add: archiveStep_def)

lemma generateChangesTemplate_total:
  "history_dir fs \<noteq> [] \<Longrightarrow> \<not> isl (generateChangesTemplate fs current dateStr monthYear)"
proof -
  assume "history_dir fs \<noteq> []"
  then obtain s where "readLastSnapshot fs = Inr s"
    using readLastSnapshot_total by blast
  then show ?thesis
    by (simp add: generateChangesTemplate_def Let_def split: option.splits)
qed

text \<open>
  Claim C7. Two archive runs for the same date: whatever the first run started from (with
  one file per name in the history directory) and whatever happened to the other files in
  between, the second run reports SKIP, leaves the history directory as the first run
  left it, with exactly one snapshot file for the date, and raises no error.
\<close>

theorem archive_idempotent:
  assumes "distinct (map fst (history_dir fs))"
      and "history_dir fsB = history_dir (filesAfter (archive_main ins fs dateStr monthYear))"
  shows "archived (archive_main insB fsB dateStr monthYearB) = SKIP
       \<and> history_dir (filesAfter (archive_main insB fsB dateStr monthYearB)) = history_dir fsB
       \<and> length (filter (\<lambda>p. fst p = snapshotPath dateStr)
            (history_dir (filesAfter (archive_main insB fsB dateStr monthYearB)))) = 1
       \<and> \<not> isl (template (archive_main insB fsB dateStr monthYearB))"
proof -
  let ?k = "snapshotPath dateStr"
  have h1: "history_dir fsB = history_dir (snd (archiveStep fs dateStr))"
    using assms(2) by (simp add: archive_main_history)
  have mem: "?k \<in> fst ` set (history_dir fsB)"
    unfolding h1 archiveStep_history by auto
  have dist: "distinct (map fst (history_dir fsB))"
    unfolding h1 archiveStep_history using assms(1) by auto
  have skip: "archiveStep fsB dateStr = (SKIP, fsB)"
    using mem by (simp add: archiveStep_def)
  have a: "archived (archive_main insB fsB dateStr monthYearB) = SKIP"
    by (simp add: archive_main_archived skip)
  have b: "history_dir (filesAfter (archive_main insB fsB dateStr monthYearB)) = history_dir fsB"
    by (simp add: archive_main_history skip)
  have c: "length (filter (\<lambda>p. fst p = ?k) (history_dir fsB)) = 1"
    using count_key_distinct[OF dist mem] .
  have ne: "history_dir (snd (archiveStep fsB dateStr)) \<noteq> []"
    using mem by (auto simp: skip)
  have d: "\<not> isl (template (archive_main insB fsB dateStr monthYearB))"
    unfolding archive_main_template
    by (rule generateChangesTemplate_total) (simp add: ne)
  from a b c d show ?thesis by simp
qed

theorem archive_idempotent_witness:
  "distinct (map fst (history_dir files_feb))
   \<and> archived (archive_main keepPage
        (filesAfter (archive_main keepPage files_feb ''2026-02-20'' ''February 2026''))
        ''2026-02-20'' ''February 2026'') = SKIP
   \<and> length (filter (\<lambda>p. fst p = snapshotPath ''2026-02-20'')
        (history_dir (filesAfter (archive_main keepPage
          (filesAfter (archive_main keepPage files_feb ''2026-02-20'' ''February 2026''))
          ''2026-02-20'' ''February 2026'')))) = 1"
proof -
  have h: "distinct (map fst (history_dir files_feb))" by (simp add: files_feb_def)
  from archive_idempotent[where ins = keepPage and dateStr = "''2026-02-20''"
      and monthYear = "''February 2026''" and insB = keepPage and monthYearB = "''February 2026''",
      OF h refl] h
  show ?thesis by blast
qed

text \<open>
  Claim C2, as amended. When the change log holds no record (the first archive), the
  template has \<^verbatim>\<open>overallChange\<close> 0 and an empty \<^verbatim>\<open>categoryChanges\<close>.
\<close>

theorem first_archive_template:
  assumes "changes_json fs = []"
  shows "map_sum id overallChange (generateChangesTemplate fs current dateStr monthYear)
           = Inr (Some 0)
       \<and> map_sum id categoryChanges (generateChangesTemplate fs current dateStr monthYear)
           = Inr []
       \<and> map_sum id overallChange (template (archive_main ins fs dateStr monthYear)) = Inr (Some 0)
       \<and> map_sum id categoryChanges (template (archive_main ins fs dateStr monthYear)) = Inr []"
  using assms
  by (simp add: archive_main_template generateChangesTemplate_def getPreviousMonthData_def
        archiveStep_changes Math_round_def)

theorem first_archive_template_witness:
  "changes_json files_first = []
   \<and> map_sum id overallChange
        (template (archive_main keepPage files_first ''2026-01-20'' ''January 2026'')) = Inr (Some 0)
   \<and> map_sum id categoryChanges
        (template (archive_main keepPage files_first ''2026-01-20'' ''January 2026'')) = Inr []"
proof -
  have h: "changes_json files_first = []" by (simp add: files_first_def)
  from first_archive_template[OF h, of current_jan "''2026-01-20''" "''January 2026''" keepPage] h
  show ?thesis by blast
qed

text \<open>
  Claim C2 as stated fails: on the first archive, with no snapshot and no change record,
  \<^verbatim>\<open>overallChange\<close> is the number 0, not \<^verbatim>\<open>null\<close>.
\<close>

theorem first_archive_overallChange_not_null:
  "history_dir files_first = [] \<and> changes_json files_first = []
   \<and> map_sum id overallChange
        (template (archive_main keepPage files_first ''2026-01-20'' ''January 2026'')) \<noteq> Inr None"
  by code_simp

lemma overallChange_with_record:
  assumes "changes_json fs \<noteq> []" and "history_dir fs \<noteq> []"
  shows "map_sum id overallChange (generateChangesTemplate fs current dateStr monthYear)
           = Inr (Some (spec_round_to 1
                (overallScore current - changeOverallScore (last (changes_json fs)))))"
proof -
  obtain s where s: "readLastSnapshot fs = Inr s"
    using readLastSnapshot_total[OF assms(2)] by blast
  have p: "getPreviousMonthData (changes_json fs) = Some (last (changes_json fs))"
    using assms(1) by (simp add: getPreviousMonthData_def last_conv_nth)
  show ?thesis
    by (simp add: generateChangesTemplate_def p s Let_def spec_round_to_def Math_round_round)
qed

lemma archiveStep_nonempty: "history_dir (snd (archiveStep fs dateStr)) \<noteq> []"
  by (auto simp: archiveStep_history)

text \<open>
  Claim C3, as amended. With a record in the change log, \<^verbatim>\<open>overallChange\<close> is the
  current overall score minus the \<^verbatim>\<open>overallScore\<close> of the last record of the change
  log, rounded to one decimal place: in every run of \<^verbatim>\<open>main\<close>, and in every call of
  \<^verbatim>\<open>generateChangesTemplate\<close> that finds a file in the history directory.
\<close>

theorem overallChange_from_change_log:
  assumes "changes_json fs \<noteq> []"
  shows "map_sum id overallChange (template (archive_main ins fs dateStr monthYear))
           = Inr (Some (spec_round_to 1
                (overallScore (current_json fs) - changeOverallScore (last (changes_json fs)))))
       \<and> (history_dir fs \<noteq> [] \<longrightarrow>
           map_sum id overallChange (generateChangesTemplate fs current dateStr monthYear)
             = Inr (Some (spec_round_to 1
                  (overallScore current - changeOverallScore (last (changes_json fs))))))"
proof -
  let ?fs = "(snd (archiveStep fs dateStr))\<lparr>history_page :=
           fst (updateHistoryPage ins dateStr (history_page (snd (archiveStep fs dateStr))))\<rparr>"
  have c: "changes_json ?fs \<noteq> []" using assms by (simp add: archiveStep_changes)
  have h: "history_dir ?fs \<noteq> []" by (simp add: archiveStep_nonempty)
  have a: "map_sum id overallChange (template (archive_main ins fs dateStr monthYear))
           = Inr (Some (spec_round_to 1
                (overallScore (current_json fs) - changeOverallScore (last (changes_json fs)))))"
    using overallChange_with_record[OF c h, of "current_json fs" dateStr monthYear]
    by (simp add: archive_main_template archiveStep_changes)
  from a overallChange_with_record[OF assms] show ?thesis by blast
qed

theorem overallChange_from_change_log_witness:
  "changes_json files_lag \<noteq> [] \<and> history_dir files_lag \<noteq> []
   \<and> map_sum id overallChange
       (generateChangesTemplate files_lag current_feb ''2026-02-20'' ''February 2026'')
       = Inr (Some (2 / 5))"
proof -
  have h1: "changes_json files_lag \<noteq> []" by (simp add: files_lag_def)
  have h2: "history_dir files_lag \<noteq> []" by (simp add: files_lag_def)
  have v: "spec_round_to 1 (overallScore current_feb
             - changeOverallScore (last (changes_json files_lag))) = 2 / 5"
    by code_simp
  from overallChange_from_change_log[OF h1, of keepPage "''2026-02-20''" "''February 2026''"
      current_feb] v h1 h2
  show ?thesis by simp
qed

text \<open>
  Claim C3 as stated fails: with December and January archived and only December in the
  change log, the February run reports 6.9 - 6.5 = 0.4, while the immediately preceding
  snapshot (January, 6.7) gives 0.2.
\<close>

theorem overallChange_not_from_snapshot:
  "readLastSnapshot files_lag = Inr snapshot_jan
   \<and> map_sum id overallChange
        (template (archive_main keepPage files_lag ''2026-02-20'' ''February 2026''))
       = Inr (Some (2 / 5))
   \<and> spec_round_to 1 (overallScore (current_json files_lag) - snapshotOverallScore snapshot_jan)
       = 1 / 5"
  by code_simp

lemma snapshotLoop_other:
  "k \<notin> fst ` set xs \<Longrightarrow> map_of (snapshotLoop xs acc) k = map_of acc k"
  by (induction xs arbitrary: acc) (auto simp: map_of_setProperty)

lemma snapshotLoop_map_of:
  "distinct (map fst xs) \<Longrightarrow> (k, c) \<in> set xs \<Longrightarrow>
   map_of (snapshotLoop xs acc) k = Some (score c)"
proof (induction xs arbitrary: acc)
  case Nil
  then show ?case by simp
next
  case (Cons x xs)
  obtain k' c' where x: "x = (k', c')" by (cases x)
  show ?case
  proof (cases "(k, c) = (k', c')")
    case True
    with Cons.prems x have "k \<notin> fst ` set xs" by auto
    then show ?thesis using True x by (simp add: snapshotLoop_other map_of_setProperty)
  next
    case False
    with Cons.prems x have "(k, c) \<in> set xs" "distinct (map fst xs)" by auto
    then show ?thesis using Cons.IH x by simp
  qed
qed

lemma detectChanges_same:
  "\<forall>(k, c) \<in> set xs. map_of (snapshotScores s) k = Some (score c) \<Longrightarrow> detectChanges s xs = []"
  by (induction xs) (auto simp: Let_def)

lemma createHistorySnapshot_no_change:
  "distinct (map fst (scores current)) \<Longrightarrow>
   detectChanges (createHistorySnapshot current dateStr) (scores current) = []"
  by (rule detectChanges_same) (auto simp: createHistorySnapshot_def snapshotLoop_map_of)

lemma last_sort_greatest:
  fixes k :: "'a::linorder"
  assumes "k \<in> set xs" and "\<forall>x \<in> set xs. x \<le> k"
  shows "last (sort xs) = k"
proof -
  have ne: "sort xs \<noteq> []" using assms(1) by (metis empty_iff list.set(1) set_sort)
  have "last (sort xs) \<in> set xs" using last_in_set[OF ne] by simp
  then have le: "last (sort xs) \<le> k" using assms(2) by blast
  have "k \<in> set (sort xs)" using assms(1) by simp
  then obtain i where i: "i < length (sort xs)" "sort xs ! i = k" by (metis in_set_conv_nth)
  have "sort xs ! i \<le> sort xs ! (length (sort xs) - 1)"
    using i(1) by (intro sorted_nth_mono) auto
  then have "k \<le> last (sort xs)" using i(2) ne by (simp add: last_conv_nth)
  with le show ?thesis by simp
qed

text \<open>
  A run that archives a new period, newer than every file of the history directory, never
  reports a category change: the snapshot it has just written is the newest file, and the
  current scores are compared with their own copy.
\<close>

lemma fresh_run_reports_no_change:
  assumes log: "changes_json fs \<noteq> []"
      and keys: "distinct (map fst (scores (current_json fs)))"
      and newest: "\<forall>f \<in> fst ` set (history_dir fs). f < snapshotPath dateStr"
  shows "archived (archive_main ins fs dateStr monthYear) = OK
       \<and> map_sum id categoryChanges (template (archive_main ins fs dateStr monthYear)) = Inr []"
proof -
  let ?k = "snapshotPath dateStr"
  let ?snap = "createHistorySnapshot (current_json fs) dateStr"
  let ?h = "history_dir fs @ [(?k, ?snap)]"
  have new: "?k \<notin> fst ` set (history_dir fs)" using newest by auto
  have step: "archiveStep fs dateStr = (OK, fs\<lparr>history_dir := ?h\<rparr>)"
    using new by (simp add: archiveStep_def keys_setProperty_new)
  have "last (sort (map fst ?h)) = ?k"
    using newest by (intro last_sort_greatest) (auto simp: less_imp_le)
  then have idx: "sort (map fst ?h) ! (length (sort (map fst ?h)) - 1) = ?k"
    by (metis last_conv_nth length_0_conv length_sort length_map snoc_eq_iff_butlast)
  have look: "map_of ?h ?k = Some ?snap"
    using new by (simp add: map_of_append map_add_def map_of_eq_None_iff[THEN iffD2]) 
  have sne: "sort (map fst ?h) \<noteq> []"
    by (metis length_0_conv length_sort length_map snoc_eq_iff_butlast)
  have rd: "\<And>p. readLastSnapshot (fs\<lparr>history_dir := ?h, history_page := p\<rparr>) = Inr ?snap"
    unfolding readLastSnapshot_def Let_def using idx look sne by simp
  have prev: "getPreviousMonthData (changes_json fs) \<noteq> None"
    using log by (simp add: getPreviousMonthData_def)
  show ?thesis
    using prev
    by (auto simp: archive_main_archived archive_main_template step generateChangesTemplate_def
          Let_def rd createHistorySnapshot_no_change[OF keys])
qed

text \<open>
  Claim C1, evaluated. January is archived with elections at 5 and the current
  assessment has elections at 7. The February run writes its snapshot first and then
  reads the newest file of the directory, which is that snapshot: it reports no category
  change. Comparing with the files as they were before the run gives the entry for
  elections from 5 to 7.
\<close>

theorem archive_main_compares_with_new_snapshot:
  "readLastSnapshot files_feb = Inr snapshot_jan
   \<and> map_of (snapshotScores snapshot_jan) ''elections'' = Some 5
   \<and> score_of (scores (current_json files_feb)) ''elections'' = 7
   \<and> archived (archive_main keepPage files_feb ''2026-02-20'' ''February 2026'') = OK
   \<and> map_sum id categoryChanges
        (template (archive_main keepPage files_feb ''2026-02-20'' ''February 2026'')) = Inr []
   \<and> map_sum id categoryChanges
        (generateChangesTemplate files_feb (current_json files_feb) ''2026-02-20'' ''February 2026'')
       = Inr [\<lparr>category = ''elections'', fromScore = Some 5, toScore = 7,
               rationale = ExplainWhy ''elections'' (Some 5) 7\<rparr>]"
  by code_simp


section \<open>Properties of the update session\<close>

lemma bindE_Inr: "bindE m f = Inr y \<longleftrightarrow> (\<exists>a. m = Inr a \<and> f a = Inr y)"
  by (cases m) (simp_all add: bindE_def)

lemma parseInt_Nil: "parseInt [] = None"
  by (simp add: parseInt_def)

lemma updateScore_Cons:
  "updateScore (r # rest) cat = Inr (cat\<lparr>score := storedScore r (score cat)\<rparr>, rest)"
  by (cases "parseInt r")
     (auto simp: updateScore_def bindE_def question_def parseInt_Nil)

lemma updateTrend_score:
  "updateTrend rl c = Inr (c', rl') \<Longrightarrow>
   updateTrend rl (c\<lparr>score := s\<rparr>) = Inr (c'\<lparr>score := s\<rparr>, rl') \<and> score c' = score c"
  by (auto simp: updateTrend_def bindE_def question_def split: list.splits option.splits if_splits)

lemma updateFindings_score:
  "updateFindings rl c = Inr (c', rl') \<Longrightarrow>
   updateFindings rl (c\<lparr>score := s\<rparr>) = Inr (c'\<lparr>score := s\<rparr>, rl') \<and> score c' = score c"
  by (auto simp: updateFindings_def bindE_def question_def
           split: list.splits sum.splits if_splits prod.splits)

lemma updateSources_score:
  "updateSources rl c = Inr (c', rl') \<Longrightarrow>
   updateSources rl (c\<lparr>score := s\<rparr>) = Inr (c'\<lparr>score := s\<rparr>, rl') \<and> score c' = score c"
  by (auto simp: updateSources_def bindE_def question_def
           split: list.splits sum.splits if_splits prod.splits option.splits)

lemma map_of_setProperty_same: "map_of (setProperty k v ps) k = Some v"
  by (induction ps) auto

lemma updateCategory_score_response:
  assumes present: "map_of (scores current) cid = Some cat"
      and completes: "updateCategory ([] # rest) current cid today = Inr (cur0, rl0)"
  shows "\<exists>cur'. updateCategory (r # rest) current cid today = Inr (cur', rl0)
           \<and> score_of (scores cur') cid = storedScore r (score cat)
           \<and> (parseInt r = None \<longrightarrow> cur' = cur0)"
proof -
  let ?s = "storedScore r (score cat)"
  have s0: "storedScore [] (score cat) = score cat"
    by (simp add: parseInt_Nil)
  from completes present obtain c2 rl2 c3 rl3 c4 where
    t: "updateTrend rest cat = Inr (c2, rl2)" and
    f: "updateFindings rl2 c2 = Inr (c3, rl3)" and
    u: "updateSources rl3 c3 = Inr (c4, rl0)" and
    c: "cur0 = current\<lparr>scores := setProperty cid (c4\<lparr>lastUpdated := today\<rparr>) (scores current)\<rparr>"
    by (auto simp: updateCategory_def updateScore_Cons s0 bindE_Inr)
  from updateTrend_score[OF t, of ?s]
  have t': "updateTrend rest (cat\<lparr>score := ?s\<rparr>) = Inr (c2\<lparr>score := ?s\<rparr>, rl2)"
    and t2: "score c2 = score cat" by simp_all
  from updateFindings_score[OF f, of ?s]
  have f': "updateFindings rl2 (c2\<lparr>score := ?s\<rparr>) = Inr (c3\<lparr>score := ?s\<rparr>, rl3)"
    and f2: "score c3 = score c2" by simp_all
  from updateSources_score[OF u, of ?s]
  have u': "updateSources rl3 (c3\<lparr>score := ?s\<rparr>) = Inr (c4\<lparr>score := ?s\<rparr>, rl0)"
    and u2: "score c4 = score c3" by simp_all
  let ?cur = "current\<lparr>scores := setProperty cid (c4\<lparr>score := ?s, lastUpdated := today\<rparr>) (scores current)\<rparr>"
  have run: "updateCategory (r # rest) current cid today = Inr (?cur, rl0)"
    by (simp add: updateCategory_def present updateScore_Cons bindE_def t' f' u')
  have sc: "score_of (scores ?cur) cid = ?s"
    by (simp add: score_of_def map_of_setProperty_same)
  have keep: "c4\<lparr>score := score cat\<rparr> = c4"
    using t2 f2 u2 by simp
  have same: "parseInt r = None \<longrightarrow> ?cur = cur0"
  proof
    assume "parseInt r = None"
    then have "?s = score cat" by simp
    then have "c4\<lparr>score := ?s, lastUpdated := today\<rparr> = c4\<lparr>lastUpdated := today\<rparr>"
      using keep by simp
    then show "?cur = cur0" by (simp add: c)
  qed
  show ?thesis
  proof (intro exI[of _ ?cur] conjI)
    show "updateCategory (r # rest) current cid today = Inr (?cur, rl0)" by (rule run)
    show "score_of (scores ?cur) cid = ?s" by (rule sc)
    show "parseInt r = None \<longrightarrow> ?cur = cur0" by (rule same)
  qed
qed

lemma radix10_digit: "isRadixDigit 10 c \<longleftrightarrow> 48 \<le> (of_char c :: nat) \<and> (of_char c :: nat) \<le> 57"
  by (auto simp: isRadixDigit_def digitValue_def Let_def)

lemma digit_not_space: "isRadixDigit 10 c \<Longrightarrow> \<not> isWhiteSpace c \<and> c \<noteq> CHR ''-'' \<and> c \<noteq> CHR ''+''"
  by (auto simp: radix10_digit isWhiteSpace_def)

text \<open>
  A run of decimal digits followed by anything that is not a digit (and that does not
  begin a \<^verbatim>\<open>0x\<close> prefix) is read as the number the digits denote.
\<close>

lemma parseInt_decimal_prefix:
  assumes ne: "ds \<noteq> []"
      and digits: "\<forall>c \<in> set ds. isRadixDigit 10 c"
      and stop: "tail = [] \<or> \<not> isRadixDigit 10 (hd tail)"
      and nohex: "stripPrefix (ds @ tail) = (10, ds @ tail)"
  shows "parseInt (ds @ tail) = Some (digitsValue 10 ds)"
proof -
  obtain d ds' where d: "ds = d # ds'" using ne by (cases ds) auto
  have dd: "isRadixDigit 10 d" using digits d by simp
  have ws: "dropWhile isWhiteSpace (ds @ tail) = ds @ tail"
    using digit_not_space[OF dd] d by simp
  have sg: "stripSign (ds @ tail) = (1, ds @ tail)"
    using digit_not_space[OF dd] d by simp
  have tw: "takeWhile (isRadixDigit 10) (ds @ tail) = ds"
    using digits stop by (cases tail) (auto simp: takeWhile_append2)
  show ?thesis
    using ne by (simp add: parseInt_def ws sg nohex tw)
qed

lemma stripPrefix_digits:
  assumes "\<forall>c \<in> set r. isRadixDigit 10 c"
  shows "stripPrefix r = (10, r)"
proof (cases r)
  case Nil
  then show ?thesis by simp
next
  case outer: (Cons c0 r')
  show ?thesis
  proof (cases r')
    case Nil
    with outer show ?thesis by simp
  next
    case (Cons c1 cs)
    with outer assms have "isRadixDigit 10 c1" by simp
    then have "c1 \<noteq> CHR ''x'' \<and> c1 \<noteq> CHR ''X''" by (auto simp: radix10_digit)
    with outer Cons show ?thesis by simp
  qed
qed

text \<open>
  An answer written as a plain integer, with or without a minus sign, is read as that
  integer.
\<close>

lemma parseInt_digits:
  assumes "r \<noteq> []" and "\<forall>c \<in> set r. isRadixDigit 10 c"
  shows "parseInt r = Some (digitsValue 10 r)"
  using parseInt_decimal_prefix[OF assms, of "[]"] stripPrefix_digits[OF assms(2)] by simp

lemma parseInt_minus_digits:
  assumes "r \<noteq> []" and "\<forall>c \<in> set r. isRadixDigit 10 c"
  shows "parseInt (CHR ''-'' # r) = Some (- digitsValue 10 r)"
proof -
  have tw: "takeWhile (isRadixDigit 10) r = r" using assms(2) by (simp add: takeWhile_eq_all_conv)
  have ws: "\<not> isWhiteSpace (CHR ''-'')" by (simp add: isWhiteSpace_def)
  show ?thesis
    using assms(1) by (simp add: parseInt_def ws stripPrefix_digits[OF assms(2)] tw)
qed

lemma sample_edit_completes:
  "updateCategory ([] # [''i'', ''n'', ''n'']) current_feb ''elections'' ''2026-02-19''
     = Inr (fst (projr (updateCategory ([] # [''i'', ''n'', ''n'']) current_feb ''elections'' ''2026-02-19'')), [])"
  by code_simp

lemma sample_elections: "map_of (scores current_feb) ''elections'' = Some (sample_category 7)"
  by code_simp

lemma sample_session_select:
  "selectCategories [''1'', ''q'', ''9'', ''i'', ''n'', ''n'', ''n'']
     = Inr ([''elections''], [''9'', ''i'', ''n'', ''n'', ''n''])"
  by code_simp

lemma sample_session_edit:
  "updateLoop [''9'', ''i'', ''n'', ''n'', ''n''] current_feb [''elections''] ''2026-02-19''
     = Inr (fst (projr (updateLoop [''9'', ''i'', ''n'', ''n'', ''n''] current_feb [''elections'']
                  ''2026-02-19'')), ''n'' # [])"
  by code_simp

lemma sample_session_recalculate:
  "recalculate (fst (projr (updateLoop [''9'', ''i'', ''n'', ''n'', ''n''] current_feb [''elections'']
                  ''2026-02-19''))) ''2026-02-19''
     = Inr (projr (recalculate (fst (projr (updateLoop [''9'', ''i'', ''n'', ''n'', ''n''] current_feb
              [''elections''] ''2026-02-19''))) ''2026-02-19''))"
  by code_simp

lemma sample_session_edited:
  "score_of (scores (fst (projr (updateLoop [''9'', ''i'', ''n'', ''n'', ''n''] current_feb
      [''elections''] ''2026-02-19'')))) ''elections'' = 9
   \<and> score_of (scores current_feb) ''elections'' = 7"
  by code_simp

lemma char_eq_code: "c = d \<longleftrightarrow> (of_char c :: nat) = of_char d"
  by simp

lemma lowerChar_n: "lowerChar c = CHR ''n'' \<longleftrightarrow> c = CHR ''n'' \<or> c = CHR ''N''"
proof -
  let ?n = "of_char c :: nat"
  have a: "lowerChar c = CHR ''n'' \<longleftrightarrow> (of_char (lowerChar c) :: nat) = 110"
    by (subst char_eq_code) simp
  have b: "c = CHR ''n'' \<longleftrightarrow> ?n = 110" by (subst char_eq_code) simp
  have c: "c = CHR ''N'' \<longleftrightarrow> ?n = 78" by (subst char_eq_code) simp
  have d: "(of_char (lowerChar c) :: nat) =
             (if (65 \<le> ?n \<and> ?n \<le> 90) \<or> (192 \<le> ?n \<and> ?n \<le> 222 \<and> ?n \<noteq> 215)
              then (?n + 32) mod 256 else ?n)"
    by (simp add: lowerChar_def Let_def)
  show ?thesis unfolding a b c d by (auto simp: mod_if)
qed

text \<open>The answers that \<^verbatim>\<open>confirm.toLowerCase() !== 'n'\<close> lets through to the discard.\<close>

lemma toLowerCase_n: "toLowerCase s = ''n'' \<longleftrightarrow> s = ''n'' \<or> s = ''N''"
proof (cases s)
  case Nil
  then show ?thesis by (simp add: toLowerCase_def)
next
  case (Cons c cs)
  then show ?thesis by (cases cs) (auto simp: toLowerCase_def lowerChar_n)
qed

text \<open>Every ending of the session other than Saved leaves the file as it was.\<close>

lemma unsaved_session_leaves_store:
  "fst (weekly_main store rl today) \<noteq> Saved \<Longrightarrow> snd (weekly_main store rl today) = store"
  by (auto simp: weekly_main_def question_def split: sum.splits prod.splits list.splits)

lemma sample_session_select_no:
  "selectCategories [''1'', ''q'', ''9'', ''i'', ''n'', ''n'', ''no'']
     = Inr ([''elections''], [''9'', ''i'', ''n'', ''n'', ''no''])"
  by code_simp

lemma sample_session_edit_no:
  "updateLoop [''9'', ''i'', ''n'', ''n'', ''no''] current_feb [''elections''] ''2026-02-19''
     = Inr (fst (projr (updateLoop [''9'', ''i'', ''n'', ''n'', ''n''] current_feb [''elections'']
                  ''2026-02-19'')), ''no'' # [])"
  by code_simp

text \<open>
  Claim C8, as amended. In every session in which categories are selected and edited and
  the aggregates recomputed, the answer to the final confirmation decides: with exactly
  \<^verbatim>\<open>n\<close> or \<^verbatim>\<open>N\<close> the session ends in Discarded and \<^verbatim>\<open>data/current.json\<close> is as it
  was before the session; with any other answer the edited assessment is written.
\<close>

theorem decline_with_n_leaves_store:
  assumes "selectCategories rl = Inr (sel, rl1)" and "sel \<noteq> []"
      and "updateLoop rl1 store sel today = Inr (current, confirm # rl2)"
      and "recalculate current today = Inr current'"
  shows "(confirm = ''n'' \<or> confirm = ''N'' \<longrightarrow> weekly_main store rl today = (Discarded, store))
       \<and> (confirm \<noteq> ''n'' \<and> confirm \<noteq> ''N'' \<longrightarrow> weekly_main store rl today = (Saved, current'))"
  using assms by (simp add: weekly_main_def question_def toLowerCase_n)

theorem decline_with_n_leaves_store_witness:
  "score_of (scores (fst (projr (updateLoop [''9'', ''i'', ''n'', ''n'', ''n''] current_feb
      [''elections''] ''2026-02-19'')))) ''elections'' = 9
   \<and> score_of (scores current_feb) ''elections'' = 7
   \<and> weekly_main current_feb [''1'', ''q'', ''9'', ''i'', ''n'', ''n'', ''n''] ''2026-02-19''
       = (Discarded, current_feb)
   \<and> weekly_main current_feb [''1'', ''q'', ''9'', ''i'', ''n'', ''n'', ''no''] ''2026-02-19''
       = (Saved, projr (recalculate (fst (projr (updateLoop [''9'', ''i'', ''n'', ''n'', ''n'']
            current_feb [''elections''] ''2026-02-19''))) ''2026-02-19''))"
proof -
  have ne: "[''elections''] \<noteq> ([] :: string list)" by simp
  have n: "''n'' = ''n'' \<or> ''n'' = ''N''" by simp
  have no: "''no'' \<noteq> ''n'' \<and> ''no'' \<noteq> ''N''" by simp
  note a = decline_with_n_leaves_store[OF sample_session_select ne sample_session_edit
      sample_session_recalculate, THEN conjunct1, THEN mp, OF n]
  note b = decline_with_n_leaves_store[OF sample_session_select_no ne sample_session_edit_no
      sample_session_recalculate, THEN conjunct2, THEN mp, OF no]
  note e1 = sample_session_edited[THEN conjunct1]
  note e2 = sample_session_edited[THEN conjunct2]
  from e1 e2 a b show ?thesis by (intro conjI)
qed

text \<open>
  Claim C8 as stated fails: elections is edited from 7 to 9 and the operator declines
  with \<^verbatim>\<open>no\<close>; the answer is not \<^verbatim>\<open>n\<close>, so the session ends in Saved and the file
  holds the edited assessment.
\<close>

theorem decline_with_no_saves:
  "fst (weekly_main current_feb [''1'', ''q'', ''9'', ''i'', ''n'', ''n'', ''no''] ''2026-02-19'')
     = Saved
   \<and> snd (weekly_main current_feb [''1'', ''q'', ''9'', ''i'', ''n'', ''n'', ''no''] ''2026-02-19'')
     \<noteq> current_feb
   \<and> score_of (scores (snd (weekly_main current_feb
         [''1'', ''q'', ''9'', ''i'', ''n'', ''n'', ''no''] ''2026-02-19''))) ''elections'' = 9
   \<and> score_of (scores current_feb) ''elections'' = 7"
  by code_simp

text \<open>
  Claim C9. Take an edit of a category that completes when the operator presses Enter at
  the score prompt, and give another answer \<open>r\<close> to that prompt, the later answers being
  the same. If \<open>r\<close> reads as a number below 1 the edit completes and stores 1, if as a
  number above 10 it completes and stores 10; if \<open>r\<close> is empty or \<^verbatim>\<open>parseInt\<close> cannot
  read it, the result is the very one of Enter, with the category's score as it was.
\<close>

theorem score_response_lenient:
  assumes "map_of (scores current) cid = Some cat"
      and "updateCategory ([] # rest) current cid today = Inr (cur0, rl0)"
  shows "(\<forall>n. parseInt r = Some n \<and> n < 1 \<longrightarrow>
            (\<exists>cur'. updateCategory (r # rest) current cid today = Inr (cur', rl0)
                  \<and> score_of (scores cur') cid = 1))
       \<and> (\<forall>n. parseInt r = Some n \<and> 10 < n \<longrightarrow>
            (\<exists>cur'. updateCategory (r # rest) current cid today = Inr (cur', rl0)
                  \<and> score_of (scores cur') cid = 10))
       \<and> (r = [] \<or> parseInt r = None \<longrightarrow>
            updateCategory (r # rest) current cid today = Inr (cur0, rl0)
            \<and> score_of (scores cur0) cid = score cat)"
proof -
  from updateCategory_score_response[OF assms, of r] obtain cur' where
    all: "updateCategory (r # rest) current cid today = Inr (cur', rl0)
          \<and> score_of (scores cur') cid = storedScore r (score cat)
          \<and> (parseInt r = None \<longrightarrow> cur' = cur0)" ..
  from all have run: "updateCategory (r # rest) current cid today = Inr (cur', rl0)" by (rule conjunct1)
  from all have sc: "score_of (scores cur') cid = storedScore r (score cat)" by simp
  from all have same: "parseInt r = None \<longrightarrow> cur' = cur0" by simp
  have low: "\<forall>n. parseInt r = Some n \<and> n < 1 \<longrightarrow>
            (\<exists>cur'. updateCategory (r # rest) current cid today = Inr (cur', rl0)
                  \<and> score_of (scores cur') cid = 1)"
  proof (intro allI impI)
    fix n assume "parseInt r = Some n \<and> n < 1"
    with sc have "score_of (scores cur') cid = 1" by simp
    with run show "\<exists>cur'. updateCategory (r # rest) current cid today = Inr (cur', rl0)
                  \<and> score_of (scores cur') cid = 1" by (intro exI[of _ cur']) simp
  qed
  have high: "\<forall>n. parseInt r = Some n \<and> 10 < n \<longrightarrow>
            (\<exists>cur'. updateCategory (r # rest) current cid today = Inr (cur', rl0)
                  \<and> score_of (scores cur') cid = 10)"
  proof (intro allI impI)
    fix n assume "parseInt r = Some n \<and> 10 < n"
    with sc have "score_of (scores cur') cid = 10" by simp
    with run show "\<exists>cur'. updateCategory (r # rest) current cid today = Inr (cur', rl0)
                  \<and> score_of (scores cur') cid = 10" by (intro exI[of _ cur']) simp
  qed
  have none: "r = [] \<or> parseInt r = None \<longrightarrow>
            updateCategory (r # rest) current cid today = Inr (cur0, rl0)
            \<and> score_of (scores cur0) cid = score cat"
  proof
    assume "r = [] \<or> parseInt r = None"
    then have pn: "parseInt r = None" by (auto simp: parseInt_Nil)
    with same have "cur' = cur0" by simp
    with run sc pn show "updateCategory (r # rest) current cid today = Inr (cur0, rl0)
            \<and> score_of (scores cur0) cid = score cat" by simp
  qed
  from low high none show ?thesis by (intro conjI)
qed

theorem score_response_lenient_witness:
  "map_of (scores current_feb) ''elections'' = Some (sample_category 7)
   \<and> parseInt ''15'' = Some 15 \<and> parseInt ''-3'' = Some (- 3) \<and> parseInt ''abc'' = None
   \<and> (\<exists>cur'. updateCategory [''15'', ''i'', ''n'', ''n''] current_feb ''elections'' ''2026-02-19''
               = Inr (cur', [])
             \<and> score_of (scores cur') ''elections'' = 10)
   \<and> (\<exists>cur'. updateCategory [''-3'', ''i'', ''n'', ''n''] current_feb ''elections'' ''2026-02-19''
               = Inr (cur', [])
             \<and> score_of (scores cur') ''elections'' = 1)
   \<and> (\<exists>cur'. updateCategory [''abc'', ''i'', ''n'', ''n''] current_feb ''elections'' ''2026-02-19''
               = Inr (cur', [])
             \<and> score_of (scores cur') ''elections'' = 7)
   \<and> (\<exists>cur'. updateCategory [[], ''i'', ''n'', ''n''] current_feb ''elections'' ''2026-02-19''
               = Inr (cur', [])
             \<and> score_of (scores cur') ''elections'' = 7)"
proof -
  have p1: "parseInt ''15'' = Some 15" by code_simp
  have p2: "parseInt ''-3'' = Some (- 3)" by code_simp
  have p3: "parseInt ''abc'' = None" by code_simp
  have s: "score (sample_category 7) = 7" by (simp add: sample_category_def)
  note t = score_response_lenient[OF sample_elections sample_edit_completes]
  from t[of "''15''"] p1 have a: "\<exists>cur'. updateCategory [''15'', ''i'', ''n'', ''n''] current_feb ''elections'' ''2026-02-19''
               = Inr (cur', []) \<and> score_of (scores cur') ''elections'' = 10" by simp
  from t[of "''-3''"] p2 have b: "\<exists>cur'. updateCategory [''-3'', ''i'', ''n'', ''n''] current_feb ''elections'' ''2026-02-19''
               = Inr (cur', []) \<and> score_of (scores cur') ''elections'' = 1" by simp
  have e: "[] = ([] :: string) \<or> parseInt [] = None" by simp
  note tc = t[of "''abc''", THEN conjunct2, THEN conjunct2, THEN mp, OF disjI2[OF p3]]
  note td = t[of "[]", THEN conjunct2, THEN conjunct2, THEN mp, OF e]
  have c: "\<exists>cur'. updateCategory [''abc'', ''i'', ''n'', ''n''] current_feb ''elections'' ''2026-02-19''
               = Inr (cur', []) \<and> score_of (scores cur') ''elections'' = 7"
    by (rule exI, rule conjI[OF tc[THEN conjunct1] trans[OF tc[THEN conjunct2] s]])
  have d: "\<exists>cur'. updateCategory [[], ''i'', ''n'', ''n''] current_feb ''elections'' ''2026-02-19''
               = Inr (cur', []) \<and> score_of (scores cur') ''elections'' = 7"
    by (rule exI, rule conjI[OF td[THEN conjunct1] trans[OF td[THEN conjunct2] s]])
  from sample_elections p1 p2 p3 a b c d show ?thesis by (intro conjI)
qed

text \<open>
  Claim C10. Take an edit of a category that completes when the operator presses Enter
  at the score prompt. With an answer whose integer prefix \<^verbatim>\<open>parseInt\<close> reads as \<open>n\<close>,
  the later answers being the same, the edit completes and stores \<open>n\<close> clamped to 1..10;
  \<^verbatim>\<open>7.9\<close> is read as 7 and \<^verbatim>\<open>5abc\<close> as 5.
\<close>

theorem score_response_integer_prefix:
  assumes "map_of (scores current) cid = Some cat"
      and "updateCategory ([] # rest) current cid today = Inr (cur0, rl0)"
      and "parseInt r = Some n"
  shows "(\<exists>cur'. updateCategory (r # rest) current cid today = Inr (cur', rl0)
            \<and> score_of (scores cur') cid = max 1 (min 10 (real_of_int n)))
       \<and> parseInt ''7.9'' = Some 7 \<and> parseInt ''5abc'' = Some 5"
proof -
  from updateCategory_score_response[OF assms(1,2), of r] obtain cur' where
    all: "updateCategory (r # rest) current cid today = Inr (cur', rl0)
          \<and> score_of (scores cur') cid = storedScore r (score cat)
          \<and> (parseInt r = None \<longrightarrow> cur' = cur0)" ..
  from all assms(3) have "updateCategory (r # rest) current cid today = Inr (cur', rl0)
            \<and> score_of (scores cur') cid = max 1 (min 10 (real_of_int n))"
    by simp
  then have a: "\<exists>cur'. updateCategory (r # rest) current cid today = Inr (cur', rl0)
            \<and> score_of (scores cur') cid = max 1 (min 10 (real_of_int n))"
    by (rule exI)
  have b: "parseInt ''7.9'' = Some 7" by code_simp
  have c: "parseInt ''5abc'' = Some 5" by code_simp
  from a b c show ?thesis by (intro conjI)
qed

theorem score_response_integer_prefix_witness:
  "map_of (scores current_feb) ''elections'' = Some (sample_category 7)
   \<and> parseInt ''9.4'' = Some 9 \<and> parseInt ''5abc'' = Some 5
   \<and> (\<exists>cur'. updateCategory [''9.4'', ''i'', ''n'', ''n''] current_feb ''elections'' ''2026-02-19''
               = Inr (cur', [])
             \<and> score_of (scores cur') ''elections'' = 9)
   \<and> (\<exists>cur'. updateCategory [''5abc'', ''i'', ''n'', ''n''] current_feb ''elections'' ''2026-02-19''
               = Inr (cur', [])
             \<and> score_of (scores cur') ''elections'' = 5)"
proof -
  have p1: "parseInt ''9.4'' = Some 9" by code_simp
  have p2: "parseInt ''5abc'' = Some 5" by code_simp
  from score_response_integer_prefix[OF sample_elections sample_edit_completes p1]
  have a: "\<exists>cur'. updateCategory [''9.4'', ''i'', ''n'', ''n''] current_feb ''elections'' ''2026-02-19''
               = Inr (cur', []) \<and> score_of (scores cur') ''elections'' = 9" by simp
  from score_response_integer_prefix[OF sample_elections sample_edit_completes p2]
  have b: "\<exists>cur'. updateCategory [''5abc'', ''i'', ''n'', ''n''] current_feb ''elections'' ''2026-02-19''
               = Inr (cur', []) \<and> score_of (scores cur') ''elections'' = 5" by simp
  from sample_elections p1 p2 a b show ?thesis by (intro conjI)
qed


end
